theory Spec2Isabelle
  imports Complex_Main
begin

section \<open>The star background's scroll coordination (src/stars.js)\<close>

text \<open>
  The script keeps one module-level number \<open>virtualScrollY\<close>, reads three numbers of the
  browser (\<open>window.scrollY\<close>, \<open>document.body.scrollHeight\<close>, \<open>window.innerHeight\<close>),
  writes the \<open>transform\<close> of up to five layer elements, and asks the browser for one
  animation frame at a time through a \<open>ticking\<close> flag.

  JavaScript numbers are modelled as \<^typ>\<open>real\<close>: arithmetic is exact, there is no rounding,
  no NaN and no infinity. A style string \<^verbatim>\<open>translateY(${x}px)\<close> is modelled as the number
  \<open>x\<close> it carries. The element with id \<^verbatim>\<open>star-layer-${i}\<close> is addressed by \<open>i\<close>.
\<close>

subsection \<open>CONFIG\<close>

record parallax_config =
  layer1 :: real
  layer2 :: real
  layer3 :: real
  layer4 :: real
  layer5 :: real

record virtualScroll_config =
  maxOffset :: real
  sensitivity :: real

record config =
  parallax :: parallax_config
  virtualScroll :: virtualScroll_config

text \<open>The values written in the source. The object is exported and meant to be edited, so
  every function below takes the configuration as its first argument.\<close>

definition CONFIG :: config where
  "CONFIG = \<lparr> parallax = \<lparr> layer1 = 1.0, layer2 = 0.7, layer3 = 0.45,
                            layer4 = 0.25, layer5 = 0.10 \<rparr>,
              virtualScroll = \<lparr> maxOffset = 2000, sensitivity = 1.0 \<rparr> \<rparr>"

text \<open>\<^verbatim>\<open>CONFIG.parallax[`layer${i}`]\<close>; the render loop reads it for \<open>i\<close> from 1 to 5 only.\<close>

definition parallaxAt :: "config \<Rightarrow> nat \<Rightarrow> real" where
  "parallaxAt cfg i =
     (if i = 1 then layer1 (parallax cfg)
      else if i = 2 then layer2 (parallax cfg)
      else if i = 3 then layer3 (parallax cfg)
      else if i = 4 then layer4 (parallax cfg)
      else layer5 (parallax cfg))"

subsection \<open>The page: layer elements and browser values\<close>

record element =
  transform :: "real option"

type_synonym dom = "nat \<rightharpoonup> element"

definition getElementById :: "dom \<Rightarrow> nat \<Rightarrow> element option" where
  "getElementById d i = d i"

text \<open>The vertical offset a layer currently shows, if the layer exists and has one.\<close>

definition translateY :: "dom \<Rightarrow> nat \<Rightarrow> real option" where
  "translateY d i = (case d i of None \<Rightarrow> None | Some layer \<Rightarrow> transform layer)"

text \<open>\<open>createStarBackground\<close> makes the five layers, farthest first, with no transform yet.\<close>

definition createStarBackground :: dom where
  "createStarBackground =
     fold (\<lambda>i d. d(i \<mapsto> \<lparr> transform = None \<rparr>)) [5, 4, 3, 2, 1] Map.empty"

datatype scroll_mode = RealOnly | VirtualOnly | Combined

text \<open>
  \<open>rafQueue\<close> counts the callbacks handed to \<open>requestAnimationFrame\<close> that have not run
  yet; within one set-up they are all the same closure. \<open>rendered\<close> is the trace of the
  arguments \<open>updateStarPositions\<close> was called with, oldest first.
\<close>

record state =
  virtualScrollY :: real
  ticking :: bool
  scrollY :: real
  scrollHeight :: real
  innerHeight :: real
  layers :: dom
  rafQueue :: nat
  rendered :: "real list"

subsection \<open>updateStarPositions\<close>

text \<open>The loop body: a layer that \<open>getElementById\<close> does not find is left out.\<close>

definition updateLayer :: "config \<Rightarrow> real \<Rightarrow> nat \<Rightarrow> dom \<Rightarrow> dom" where
  "updateLayer cfg scrollValue i d =
     (case getElementById d i of
        None \<Rightarrow> d
      | Some layer \<Rightarrow> d(i \<mapsto> layer\<lparr> transform := Some (- scrollValue * parallaxAt cfg i) \<rparr>))"

definition updateStarPositions :: "config \<Rightarrow> real \<Rightarrow> state \<Rightarrow> state" where
  "updateStarPositions cfg scrollValue s =
     s\<lparr> layers := fold (updateLayer cfg scrollValue) [1..<6] (layers s),
        rendered := rendered s @ [scrollValue] \<rparr>"

subsection \<open>requestAnimationFrame\<close>

definition requestAnimationFrame :: "state \<Rightarrow> state" where
  "requestAnimationFrame s = s\<lparr> rafQueue := rafQueue s + 1 \<rparr>"

subsection \<open>setupRealScrollParallax\<close>

definition onScroll_real :: "state \<Rightarrow> state" where
  "onScroll_real s =
     (if \<not> ticking s then (requestAnimationFrame s)\<lparr> ticking := True \<rparr> else s)"

definition frame_real :: "config \<Rightarrow> state \<Rightarrow> state" where
  "frame_real cfg s = (updateStarPositions cfg (scrollY s) s)\<lparr> ticking := False \<rparr>"

subsection \<open>setupVirtualScrollParallax\<close>

text \<open>The handler is defined in the source, but \<open>init\<close> never installs it.\<close>

definition onWheel_virtual :: "config \<Rightarrow> real \<Rightarrow> state \<Rightarrow> state" where
  "onWheel_virtual cfg deltaY s =
     (let s1 = s\<lparr> virtualScrollY := virtualScrollY s + deltaY * sensitivity (virtualScroll cfg) \<rparr>;
          s2 = s1\<lparr> virtualScrollY :=
                      max 0 (min (maxOffset (virtualScroll cfg)) (virtualScrollY s1)) \<rparr>
      in if \<not> ticking s2 then (requestAnimationFrame s2)\<lparr> ticking := True \<rparr> else s2)"

definition frame_virtual :: "config \<Rightarrow> state \<Rightarrow> state" where
  "frame_virtual cfg s = (updateStarPositions cfg (virtualScrollY s) s)\<lparr> ticking := False \<rparr>"

subsection \<open>setupCombinedScrollParallax\<close>

definition maxRealScroll :: "state \<Rightarrow> real" where
  "maxRealScroll s = max 0 (scrollHeight s - innerHeight s)"

text \<open>\<open>getEffectiveScroll\<close> returns the position and the state it leaves behind.\<close>

definition getEffectiveScroll :: "state \<Rightarrow> real \<times> state" where
  "getEffectiveScroll s =
     (let realScroll = scrollY s in
      if realScroll \<ge> maxRealScroll s - 5 then (realScroll + virtualScrollY s, s)
      else (realScroll, s\<lparr> virtualScrollY := 0 \<rparr>))"

definition onScroll_combined :: "state \<Rightarrow> state" where
  "onScroll_combined s =
     (if \<not> ticking s then (requestAnimationFrame s)\<lparr> ticking := True \<rparr> else s)"

text \<open>The first component says whether the handler called \<open>e.preventDefault()\<close>.\<close>

definition onWheel_combined :: "config \<Rightarrow> real \<Rightarrow> state \<Rightarrow> bool \<times> state" where
  "onWheel_combined cfg deltaY s =
     (let (prevented, s1) =
        (if maxRealScroll s > 5 then
           (if scrollY s \<ge> maxRealScroll s - 5 \<and> deltaY > 0 then
              (False,
               s\<lparr> virtualScrollY :=
                    min (maxOffset (virtualScroll cfg))
                        (virtualScrollY s + deltaY * sensitivity (virtualScroll cfg)) \<rparr>)
            else if virtualScrollY s > 0 \<and> deltaY < 0 then
              (let v = max 0 (virtualScrollY s + deltaY * sensitivity (virtualScroll cfg))
               in (v > 0, s\<lparr> virtualScrollY := v \<rparr>))
            else (False, s))
         else
           (False,
            s\<lparr> virtualScrollY :=
                 max 0 (min (maxOffset (virtualScroll cfg))
                            (virtualScrollY s + deltaY * sensitivity (virtualScroll cfg))) \<rparr>))
      in (prevented,
          if \<not> ticking s1 then (requestAnimationFrame s1)\<lparr> ticking := True \<rparr> else s1))"

definition frame_combined :: "config \<Rightarrow> state \<Rightarrow> state" where
  "frame_combined cfg s =
     (let (p, s1) = getEffectiveScroll s
      in (updateStarPositions cfg p s1)\<lparr> ticking := False \<rparr>)"

subsection \<open>One running instance\<close>

text \<open>
  The set-up of a mode on a page whose scroll offset, body height and window height are
  \<open>y\<close>, \<open>sh\<close> and \<open>ih\<close>: the layers are created, the mode's listeners are attached and the
  first render is made (\<open>window.scrollY\<close> in \<open>setupRealScrollParallax\<close>, 0 in the others).
\<close>

definition setupInstance :: "config \<Rightarrow> scroll_mode \<Rightarrow> real \<Rightarrow> real \<Rightarrow> real \<Rightarrow> state" where
  "setupInstance cfg m y sh ih =
     (let s = \<lparr> virtualScrollY = 0, ticking = False, scrollY = y, scrollHeight = sh,
                innerHeight = ih, layers = createStarBackground, rafQueue = 0,
                rendered = [] \<rparr>
      in case m of
           RealOnly \<Rightarrow> updateStarPositions cfg (scrollY s) s
         | VirtualOnly \<Rightarrow> updateStarPositions cfg 0 s
         | Combined \<Rightarrow> updateStarPositions cfg 0 s)"

text \<open>
  What the browser delivers: a scroll to offset \<open>y\<close> (the offset changes, then the scroll
  listeners run), a wheel event with \<open>deltaY\<close>, and an animation frame (every callback
  queued so far runs once).
\<close>

datatype event = Scroll real | Wheel real | Frame

definition subscribed :: "scroll_mode \<Rightarrow> event \<Rightarrow> bool" where
  "subscribed m e =
     (case e of
        Scroll y \<Rightarrow> m = RealOnly \<or> m = Combined
      | Wheel d \<Rightarrow> m = VirtualOnly \<or> m = Combined
      | Frame \<Rightarrow> False)"

definition frameCallback :: "config \<Rightarrow> scroll_mode \<Rightarrow> state \<Rightarrow> state" where
  "frameCallback cfg m s =
     (case m of
        RealOnly \<Rightarrow> frame_real cfg s
      | VirtualOnly \<Rightarrow> frame_virtual cfg s
      | Combined \<Rightarrow> frame_combined cfg s)"

definition step :: "config \<Rightarrow> scroll_mode \<Rightarrow> event \<Rightarrow> state \<Rightarrow> state" where
  "step cfg m e s =
     (case e of
        Scroll y \<Rightarrow>
          (let s1 = s\<lparr> scrollY := y \<rparr> in
           case m of
             RealOnly \<Rightarrow> onScroll_real s1
           | VirtualOnly \<Rightarrow> s1
           | Combined \<Rightarrow> onScroll_combined s1)
      | Wheel deltaY \<Rightarrow>
          (case m of
             RealOnly \<Rightarrow> s
           | VirtualOnly \<Rightarrow> onWheel_virtual cfg deltaY s
           | Combined \<Rightarrow> snd (onWheel_combined cfg deltaY s))
      | Frame \<Rightarrow> (frameCallback cfg m ^^ rafQueue s) (s\<lparr> rafQueue := 0 \<rparr>))"

definition run :: "config \<Rightarrow> scroll_mode \<Rightarrow> event list \<Rightarrow> state \<Rightarrow> state" where
  "run cfg m es s = fold (step cfg m) es s"

text \<open>The offsets that the scroll events of a list report, in order.\<close>

fun scrollOffsets :: "event list \<Rightarrow> real list" where
  "scrollOffsets [] = []"
| "scrollOffsets (Scroll y # es) = y # scrollOffsets es"
| "scrollOffsets (Wheel d # es) = scrollOffsets es"
| "scrollOffsets (Frame # es) = scrollOffsets es"

text \<open>The position a frame callback of the mode would hand to the renderer in state \<open>s\<close>.\<close>

definition effectivePosition :: "scroll_mode \<Rightarrow> state \<Rightarrow> real" where
  "effectivePosition m s =
     (case m of
        RealOnly \<Rightarrow> scrollY s
      | VirtualOnly \<Rightarrow> virtualScrollY s
      | Combined \<Rightarrow> fst (getEffectiveScroll s))"

subsection \<open>Invariants of a running instance\<close>

text \<open>\<open>ticking\<close> is set exactly while one frame callback is waiting.\<close>

definition scheduled :: "state \<Rightarrow> bool" where
  "scheduled s = (rafQueue s = (if ticking s then 1 else 0))"

text \<open>The bounds of the virtual offset.\<close>

definition inBounds :: "config \<Rightarrow> state \<Rightarrow> bool" where
  "inBounds cfg s = (0 \<le> virtualScrollY s \<and> virtualScrollY s \<le> maxOffset (virtualScroll cfg))"

text \<open>A scroll event that reports an offset below zero is excluded where the browser's
  offsets are taken to be non-negative.\<close>

definition nonnegScroll :: "event \<Rightarrow> bool" where
  "nonnegScroll e = (case e of Scroll y \<Rightarrow> 0 \<le> y | Wheel d \<Rightarrow> True | Frame \<Rightarrow> True)"

text \<open>The current offset and everything rendered so far are non-negative.\<close>

definition nonnegRendered :: "state \<Rightarrow> bool" where
  "nonnegRendered s = (0 \<le> scrollY s \<and> list_all (\<lambda>p. 0 \<le> p) (rendered s))"

section \<open>Basic facts\<close>

lemma updateStarPositions_fields:
  "virtualScrollY (updateStarPositions cfg p s) = virtualScrollY s"
  "ticking (updateStarPositions cfg p s) = ticking s"
  "scrollY (updateStarPositions cfg p s) = scrollY s"
  "scrollHeight (updateStarPositions cfg p s) = scrollHeight s"
  "innerHeight (updateStarPositions cfg p s) = innerHeight s"
  "rafQueue (updateStarPositions cfg p s) = rafQueue s"
  "rendered (updateStarPositions cfg p s) = rendered s @ [p]"
  by (simp_all add: updateStarPositions_def)

lemma upt_1_6: "[1..<6] = [1, 2, 3, 4, 5::nat]"
  by (simp add: upt_conv_Cons eval_nat_numeral)

lemma updateLayer_apply:
  "updateLayer cfg p i d j =
     (if j = i then map_option (\<lambda>l. l\<lparr> transform := Some (- p * parallaxAt cfg i) \<rparr>) (d i) else d j)"
  by (simp add: updateLayer_def getElementById_def split: option.split)

lemma fold_updateLayer_apply:
  "fold (updateLayer cfg p) [1..<6] d j =
     (if 1 \<le> j \<and> j \<le> 5 then map_option (\<lambda>l. l\<lparr> transform := Some (- p * parallaxAt cfg j) \<rparr>) (d j) else d j)"
proof -
  have "j = 1 \<or> j = 2 \<or> j = 3 \<or> j = 4 \<or> j = 5 \<or> \<not> (1 \<le> j \<and> j \<le> 5)" by arith
  then show ?thesis
    unfolding upt_1_6 by (auto simp add: updateLayer_apply)
qed

lemma frameCallback_fields:
  "scrollY (frameCallback cfg m s) = scrollY s"
  "scrollHeight (frameCallback cfg m s) = scrollHeight s"
  "innerHeight (frameCallback cfg m s) = innerHeight s"
  "rafQueue (frameCallback cfg m s) = rafQueue s"
  "ticking (frameCallback cfg m s) = False"
  by (cases m; simp add: frameCallback_def frame_real_def frame_virtual_def frame_combined_def
        getEffectiveScroll_def updateStarPositions_fields Let_def)+

lemma frameCallback_rendered:
  "rendered (frameCallback cfg m s) = rendered s @ [effectivePosition m s]"
  by (cases m; simp add: frameCallback_def frame_real_def frame_virtual_def frame_combined_def
        getEffectiveScroll_def updateStarPositions_fields effectivePosition_def Let_def)

lemma frameCallback_virtualScrollY:
  "virtualScrollY (frameCallback cfg m s) =
     (if m = Combined \<and> scrollY s < maxRealScroll s - 5 then 0 else virtualScrollY s)"
  by (cases m; simp add: frameCallback_def frame_real_def frame_virtual_def frame_combined_def
        getEffectiveScroll_def updateStarPositions_fields Let_def)

lemma maxRealScroll_cong:
  "scrollHeight t = scrollHeight s \<Longrightarrow> innerHeight t = innerHeight s \<Longrightarrow>
   maxRealScroll t = maxRealScroll s"
  by (simp add: maxRealScroll_def)

lemma funpow_preserves:
  assumes "\<And>x. P x \<Longrightarrow> P (f x)" and "P x"
  shows "P ((f ^^ n) x)"
  using assms by (induction n) simp_all

subsection \<open>The virtual offset stays within its bounds\<close>

lemma onWheel_virtual_inBounds:
  assumes "0 \<le> maxOffset (virtualScroll cfg)"
  shows "inBounds cfg (onWheel_virtual cfg d s)"
  using assms
  by (simp add: onWheel_virtual_def inBounds_def requestAnimationFrame_def Let_def)

lemma onWheel_combined_inBounds:
  assumes M: "0 \<le> maxOffset (virtualScroll cfg)" and k: "0 \<le> sensitivity (virtualScroll cfg)"
    and b: "inBounds cfg s"
  shows "inBounds cfg (snd (onWheel_combined cfg d s))"
proof -
  have up: "0 < d \<Longrightarrow> 0 \<le> d * sensitivity (virtualScroll cfg)"
    using k by simp
  have down: "d < 0 \<Longrightarrow> d * sensitivity (virtualScroll cfg) \<le> 0"
    using k by (simp add: mult_nonpos_nonneg)
  show ?thesis
    using M b up down
    by (auto simp add: onWheel_combined_def inBounds_def requestAnimationFrame_def Let_def)
qed

lemma frameCallback_inBounds:
  assumes "0 \<le> maxOffset (virtualScroll cfg)" and "inBounds cfg s"
  shows "inBounds cfg (frameCallback cfg m s)"
  using assms by (simp add: inBounds_def frameCallback_virtualScrollY)

lemma step_inBounds:
  assumes M: "0 \<le> maxOffset (virtualScroll cfg)" and k: "0 \<le> sensitivity (virtualScroll cfg)"
    and b: "inBounds cfg s"
  shows "inBounds cfg (step cfg m e s)"
proof (cases e)
  case (Scroll y)
  then show ?thesis
    using b by (cases m)
      (simp_all add: step_def inBounds_def onScroll_real_def onScroll_combined_def
         requestAnimationFrame_def Let_def)
next
  case (Wheel d)
  then show ?thesis
    using b onWheel_virtual_inBounds [OF M] onWheel_combined_inBounds [OF M k b]
    by (cases m) (simp_all add: step_def)
next
  case Frame
  have "inBounds cfg (s\<lparr> rafQueue := 0 \<rparr>)"
    using b by (simp add: inBounds_def)
  then have "inBounds cfg ((frameCallback cfg m ^^ rafQueue s) (s\<lparr> rafQueue := 0 \<rparr>))"
    by (rule funpow_preserves [rotated]) (rule frameCallback_inBounds [OF M])
  with Frame show ?thesis by (simp add: step_def)
qed

lemma run_inBounds:
  assumes M: "0 \<le> maxOffset (virtualScroll cfg)" and k: "0 \<le> sensitivity (virtualScroll cfg)"
  shows "inBounds cfg s \<Longrightarrow> inBounds cfg (run cfg m es s)"
  unfolding run_def
  by (induction es arbitrary: s) (simp_all add: step_inBounds [OF M k])

lemma setupInstance_fields:
  "virtualScrollY (setupInstance cfg m y sh ih) = 0"
  "ticking (setupInstance cfg m y sh ih) = False"
  "rafQueue (setupInstance cfg m y sh ih) = 0"
  "scrollY (setupInstance cfg m y sh ih) = y"
  "scrollHeight (setupInstance cfg m y sh ih) = sh"
  "innerHeight (setupInstance cfg m y sh ih) = ih"
  "rendered (setupInstance cfg m y sh ih) = [if m = RealOnly then y else 0]"
  by (cases m; simp add: setupInstance_def updateStarPositions_fields Let_def)+

lemma setupInstance_inBounds:
  "0 \<le> maxOffset (virtualScroll cfg) \<Longrightarrow> inBounds cfg (setupInstance cfg m y sh ih)"
  by (simp add: inBounds_def setupInstance_fields)


subsection \<open>Rendered positions are not negative\<close>

lemma effectivePosition_nonneg:
  assumes "inBounds cfg s" and "0 \<le> scrollY s"
  shows "0 \<le> effectivePosition m s"
  using assms
  by (cases m) (simp_all add: effectivePosition_def getEffectiveScroll_def inBounds_def Let_def)

lemma frameCallback_nonnegRendered:
  assumes "inBounds cfg s" and "nonnegRendered s"
  shows "nonnegRendered (frameCallback cfg m s)"
  using assms effectivePosition_nonneg [of cfg s m]
  by (simp add: nonnegRendered_def frameCallback_fields frameCallback_rendered)

lemma step_rendered_no_frame:
  "e \<noteq> Frame \<Longrightarrow> rendered (step cfg m e s) = rendered s"
  by (cases e; cases m)
     (simp_all add: step_def onScroll_real_def onScroll_combined_def onWheel_virtual_def
        onWheel_combined_def requestAnimationFrame_def Let_def split: prod.split)

lemma step_scrollY_no_scroll:
  "(\<And>y. e \<noteq> Scroll y) \<Longrightarrow> scrollY (step cfg m e s) = scrollY s"
proof (cases e)
  case (Scroll y)
  assume "\<And>y. e \<noteq> Scroll y"
  with Scroll show ?thesis by simp
next
  case (Wheel d)
  then show ?thesis
    by (cases m)
       (simp_all add: step_def onWheel_virtual_def onWheel_combined_def
          requestAnimationFrame_def Let_def split: prod.split)
next
  case Frame
  have "scrollY ((frameCallback cfg m ^^ n) t) = scrollY t" for n t
    by (induction n) (simp_all add: frameCallback_fields)
  with Frame show ?thesis by (simp add: step_def)
qed

lemma step_scrollY_scroll: "scrollY (step cfg m (Scroll y) s) = y"
  by (cases m)
     (simp_all add: step_def onScroll_real_def onScroll_combined_def
        requestAnimationFrame_def Let_def)

lemma step_safe:
  assumes M: "0 \<le> maxOffset (virtualScroll cfg)" and k: "0 \<le> sensitivity (virtualScroll cfg)"
    and b: "inBounds cfg s" and r: "nonnegRendered s" and e: "nonnegScroll e"
  shows "inBounds cfg (step cfg m e s) \<and> nonnegRendered (step cfg m e s)"
proof (rule conjI)
  show "inBounds cfg (step cfg m e s)" by (rule step_inBounds [OF M k b])
next
  show "nonnegRendered (step cfg m e s)"
  proof (cases e)
    case (Scroll y)
    then show ?thesis
      using r e
      by (simp add: nonnegRendered_def nonnegScroll_def step_scrollY_scroll
            step_rendered_no_frame)
  next
    case (Wheel d)
    then show ?thesis
      using r
      by (simp add: nonnegRendered_def step_scrollY_no_scroll step_rendered_no_frame)
  next
    case Frame
    have "inBounds cfg (s\<lparr> rafQueue := 0 \<rparr>) \<and> nonnegRendered (s\<lparr> rafQueue := 0 \<rparr>)"
      using b r by (simp add: inBounds_def nonnegRendered_def)
    then have "inBounds cfg ((frameCallback cfg m ^^ rafQueue s) (s\<lparr> rafQueue := 0 \<rparr>))
             \<and> nonnegRendered ((frameCallback cfg m ^^ rafQueue s) (s\<lparr> rafQueue := 0 \<rparr>))"
      by (rule funpow_preserves [rotated])
         (simp add: frameCallback_inBounds [OF M] frameCallback_nonnegRendered)
    with Frame show ?thesis by (simp add: step_def)
  qed
qed

lemma run_safe:
  assumes M: "0 \<le> maxOffset (virtualScroll cfg)" and k: "0 \<le> sensitivity (virtualScroll cfg)"
  shows "inBounds cfg s \<Longrightarrow> nonnegRendered s \<Longrightarrow> list_all nonnegScroll es \<Longrightarrow>
         inBounds cfg (run cfg m es s) \<and> nonnegRendered (run cfg m es s)"
  unfolding run_def
proof (induction es arbitrary: s)
  case Nil
  then show ?case by simp
next
  case (Cons e es)
  from Cons.prems have "inBounds cfg (step cfg m e s) \<and> nonnegRendered (step cfg m e s)"
    by (intro step_safe [OF M k]) simp_all
  with Cons.IH [of "step cfg m e s"] Cons.prems show ?case by simp
qed

lemma setupInstance_nonnegRendered:
  "0 \<le> y \<Longrightarrow> nonnegRendered (setupInstance cfg m y sh ih)"
  by (simp add: nonnegRendered_def setupInstance_fields)

subsection \<open>At most one frame callback is pending\<close>

lemma step_scheduled_no_frame:
  assumes "e \<noteq> Frame" and "scheduled s"
  shows "scheduled (step cfg m e s)
       \<and> (ticking (step cfg m e s) \<longleftrightarrow> ticking s \<or> subscribed m e)"
  using assms
  by (cases e; cases m)
     (auto simp add: step_def scheduled_def subscribed_def onScroll_real_def
        onScroll_combined_def onWheel_virtual_def onWheel_combined_def
        requestAnimationFrame_def Let_def split: prod.split if_splits)

lemma run_scheduled_no_frame:
  "Frame \<notin> set es \<Longrightarrow> scheduled s \<Longrightarrow>
     scheduled (run cfg m es s)
   \<and> (ticking (run cfg m es s) \<longleftrightarrow> ticking s \<or> (\<exists>e\<in>set es. subscribed m e))
   \<and> rendered (run cfg m es s) = rendered s"
  unfolding run_def
proof (induction es arbitrary: s)
  case Nil
  then show ?case by simp
next
  case (Cons e es)
  from Cons.prems have e: "e \<noteq> Frame" and es: "Frame \<notin> set es" by auto
  note st = step_scheduled_no_frame [OF e Cons.prems(2), of cfg m]
  from Cons.IH [OF es conjunct1 [OF st]] st step_rendered_no_frame [OF e, of cfg m s]
  show ?case by auto
qed

lemma step_Frame_pending:
  assumes "scheduled s" and "ticking s"
  shows "step cfg m Frame s = frameCallback cfg m (s\<lparr> rafQueue := 0 \<rparr>)"
  using assms by (simp add: step_def scheduled_def)

lemma step_Frame_idle:
  assumes "scheduled s" and "\<not> ticking s"
  shows "step cfg m Frame s = s"
  using assms by (simp add: step_def scheduled_def)

lemma step_scheduled:
  assumes "scheduled s"
  shows "scheduled (step cfg m e s)"
proof (cases "e = Frame")
  case False
  then show ?thesis using step_scheduled_no_frame [OF False assms] by simp
next
  case True
  show ?thesis
  proof (cases "ticking s")
    case True
    with \<open>e = Frame\<close> assms show ?thesis
      by (simp add: step_Frame_pending scheduled_def frameCallback_fields)
  next
    case False
    with \<open>e = Frame\<close> assms show ?thesis
      by (simp add: step_Frame_idle)
  qed
qed

lemma run_scheduled: "scheduled s \<Longrightarrow> scheduled (run cfg m es s)"
  unfolding run_def
  by (induction es arbitrary: s) (simp_all add: step_scheduled)

lemma setupInstance_scheduled: "scheduled (setupInstance cfg m y sh ih)"
  by (simp add: scheduled_def setupInstance_fields)

subsection \<open>What a scroll and a wheel event leave alone\<close>

lemma step_Scroll_fields:
  "scrollHeight (step cfg m (Scroll y) s) = scrollHeight s"
  "innerHeight (step cfg m (Scroll y) s) = innerHeight s"
  "virtualScrollY (step cfg m (Scroll y) s) = virtualScrollY s"
  by (cases m; simp add: step_def onScroll_real_def onScroll_combined_def
        requestAnimationFrame_def Let_def)+

lemma step_Wheel_fields:
  "scrollY (step cfg m (Wheel d) s) = scrollY s"
  "scrollHeight (step cfg m (Wheel d) s) = scrollHeight s"
  "innerHeight (step cfg m (Wheel d) s) = innerHeight s"
  by (cases m; simp add: step_def onWheel_virtual_def onWheel_combined_def
        requestAnimationFrame_def Let_def split: prod.split)+

lemma step_heights:
  "scrollHeight (step cfg m e s) = scrollHeight s \<and> innerHeight (step cfg m e s) = innerHeight s"
proof (cases e)
  case (Scroll y)
  then show ?thesis by (simp add: step_Scroll_fields)
next
  case (Wheel d)
  then show ?thesis by (simp add: step_Wheel_fields)
next
  case Frame
  have "scrollHeight ((frameCallback cfg m ^^ n) t) = scrollHeight t
      \<and> innerHeight ((frameCallback cfg m ^^ n) t) = innerHeight t" for n t
    by (induction n) (simp_all add: frameCallback_fields)
  with Frame show ?thesis by (simp add: step_def)
qed

lemma run_maxRealScroll: "maxRealScroll (run cfg m es s) = maxRealScroll s"
  unfolding run_def
proof (induction es arbitrary: s)
  case Nil
  show ?case by simp
next
  case (Cons e es)
  have "maxRealScroll (step cfg m e s) = maxRealScroll s"
    by (rule maxRealScroll_cong) (simp_all add: step_heights)
  with Cons.IH [of "step cfg m e s"] show ?case by simp
qed

lemma run_scrollY: "scrollY (run cfg m es s) = last (scrollY s # scrollOffsets es)"
  unfolding run_def
proof (induction es arbitrary: s)
  case Nil
  show ?case by simp
next
  case (Cons e es)
  show ?case
  proof (cases e)
    case (Scroll y)
    with Cons.IH [of "step cfg m e s"] show ?thesis
      by (simp add: step_scrollY_scroll)
  next
    case (Wheel d)
    with Cons.IH [of "step cfg m e s"] show ?thesis
      by (simp add: step_Wheel_fields)
  next
    case Frame
    with Cons.IH [of "step cfg m e s"] show ?thesis
      by (simp add: step_scrollY_no_scroll)
  qed
qed

lemma effectivePosition_rafQueue:
  "effectivePosition m (s\<lparr> rafQueue := n \<rparr>) = effectivePosition m s"
  by (cases m) (simp_all add: effectivePosition_def getEffectiveScroll_def maxRealScroll_def Let_def)

subsection \<open>The layers after a render\<close>

lemma createStarBackground_apply:
  "createStarBackground i = (if 1 \<le> i \<and> i \<le> 5 then Some \<lparr> transform = None \<rparr> else None)"
  by (auto simp add: createStarBackground_def)

lemma updateStarPositions_layers:
  "layers (updateStarPositions cfg p s) i =
     (if 1 \<le> i \<and> i \<le> 5
      then map_option (\<lambda>l. l\<lparr> transform := Some (- p * parallaxAt cfg i) \<rparr>) (layers s i)
      else layers s i)"
  using fold_updateLayer_apply [of cfg p "layers s" i]
  by (simp add: updateStarPositions_def)

lemma translateY_updateStarPositions:
  assumes "1 \<le> i" and "i \<le> 5" and "layers s i \<noteq> None"
  shows "translateY (layers (updateStarPositions cfg p s)) i = Some (- p * parallaxAt cfg i)"
  using assms by (auto simp add: translateY_def updateStarPositions_layers)

subsection \<open>Unfolding the handlers on a concrete page\<close>

lemmas handler_defs =
  step_def onScroll_real_def onScroll_combined_def onWheel_virtual_def onWheel_combined_def
  requestAnimationFrame_def frameCallback_def frame_real_def frame_virtual_def
  frame_combined_def getEffectiveScroll_def maxRealScroll_def effectivePosition_def Let_def

lemmas scenario_defs = run_def setupInstance_def updateStarPositions_def CONFIG_def handler_defs

section \<open>The wheel policy of the combined mode\<close>

text \<open>
  Claim C1. Combined mode, content scrollable (\<open>maxRealScroll > 5\<close>): at the end of real
  scroll (\<open>scrollY = maxRealScroll\<close>) with \<open>virtualScrollY = 0\<close>, a wheel event with
  \<open>deltaY = 100\<close> under \<open>sensitivity = 1\<close> and \<open>maxOffset = 2000\<close> leaves
  \<open>virtualScrollY = 100\<close>, and \<open>getEffectiveScroll\<close> then returns \<open>maxRealScroll + 100\<close>.
  The concrete page below has a body of 1800 and a window of 800, so 1000 of real scroll.
\<close>

theorem combined_forward_wheel_at_end:
  assumes "maxRealScroll s > 5" and "scrollY s = maxRealScroll s" and "virtualScrollY s = 0"
    and "sensitivity (virtualScroll cfg) = 1" and "maxOffset (virtualScroll cfg) = 2000"
  shows "virtualScrollY (snd (onWheel_combined cfg 100 s)) = 100
       \<and> fst (getEffectiveScroll (snd (onWheel_combined cfg 100 s))) = maxRealScroll s + 100"
  using assms
  by (auto simp add: onWheel_combined_def getEffectiveScroll_def maxRealScroll_def
        requestAnimationFrame_def Let_def)

theorem combined_forward_wheel_at_end_witness:
  "maxRealScroll (run CONFIG Combined [Scroll 1000] (setupInstance CONFIG Combined 0 1800 800)) = 1000
 \<and> scrollY (run CONFIG Combined [Scroll 1000] (setupInstance CONFIG Combined 0 1800 800)) = 1000
 \<and> virtualScrollY (run CONFIG Combined [Scroll 1000] (setupInstance CONFIG Combined 0 1800 800)) = 0
 \<and> virtualScrollY (snd (onWheel_combined CONFIG 100
       (run CONFIG Combined [Scroll 1000] (setupInstance CONFIG Combined 0 1800 800)))) = 100
 \<and> fst (getEffectiveScroll (snd (onWheel_combined CONFIG 100
       (run CONFIG Combined [Scroll 1000] (setupInstance CONFIG Combined 0 1800 800))))) = 1100"
  using combined_forward_wheel_at_end
    [of "run CONFIG Combined [Scroll 1000] (setupInstance CONFIG Combined 0 1800 800)" CONFIG]
  by (simp add: run_def setupInstance_def updateStarPositions_def CONFIG_def step_def
        onScroll_combined_def requestAnimationFrame_def maxRealScroll_def)

text \<open>
  Claim C2. Combined mode, content scrollable: from any state with \<open>virtualScrollY > 0\<close>, a
  wheel event with \<open>deltaY < 0\<close> sets \<open>virtualScrollY\<close> to
  \<open>max 0 (virtualScrollY - \<bar>deltaY\<bar> * sensitivity)\<close>, and \<open>preventDefault\<close> is called exactly
  when the new value is still positive. On the page above: from 100, \<open>deltaY = -30\<close> gives 70
  and the event is prevented.
\<close>

theorem combined_backward_wheel_retracts:
  assumes "maxRealScroll s > 5" and "virtualScrollY s > 0" and "deltaY < 0"
  shows "virtualScrollY (snd (onWheel_combined cfg deltaY s))
           = max 0 (virtualScrollY s - \<bar>deltaY\<bar> * sensitivity (virtualScroll cfg))
       \<and> (fst (onWheel_combined cfg deltaY s)
            \<longleftrightarrow> virtualScrollY (snd (onWheel_combined cfg deltaY s)) > 0)"
  using assms
  by (simp add: onWheel_combined_def requestAnimationFrame_def Let_def)

theorem combined_backward_wheel_retracts_witness:
  "virtualScrollY (run CONFIG Combined [Scroll 1000, Wheel 100]
       (setupInstance CONFIG Combined 0 1800 800)) = 100
 \<and> virtualScrollY (snd (onWheel_combined CONFIG (- 30)
       (run CONFIG Combined [Scroll 1000, Wheel 100]
          (setupInstance CONFIG Combined 0 1800 800)))) = 70
 \<and> fst (onWheel_combined CONFIG (- 30)
       (run CONFIG Combined [Scroll 1000, Wheel 100]
          (setupInstance CONFIG Combined 0 1800 800)))"
  using combined_backward_wheel_retracts
    [of "run CONFIG Combined [Scroll 1000, Wheel 100] (setupInstance CONFIG Combined 0 1800 800)"
        "- 30" CONFIG]
  by (simp add: scenario_defs)

text \<open>
  Claim C10. Combined mode, content not scrollable (\<open>maxRealScroll \<le> 5\<close>): whatever
  \<open>deltaY\<close> and \<open>virtualScrollY\<close> are, the wheel handler does not call \<open>preventDefault\<close>.
  The concrete page is shorter than its window and has \<open>virtualScrollY = 100\<close>.
\<close>

theorem short_page_never_prevents:
  assumes "maxRealScroll s \<le> 5"
  shows "\<not> fst (onWheel_combined cfg deltaY s)"
  using assms
  by (simp add: onWheel_combined_def Let_def)

theorem short_page_never_prevents_witness:
  "maxRealScroll (run CONFIG Combined [Wheel 100] (setupInstance CONFIG Combined 0 600 800)) = 0
 \<and> virtualScrollY (run CONFIG Combined [Wheel 100] (setupInstance CONFIG Combined 0 600 800)) = 100
 \<and> \<not> fst (onWheel_combined CONFIG (- 30)
        (run CONFIG Combined [Wheel 100] (setupInstance CONFIG Combined 0 600 800)))"
  using short_page_never_prevents
    [of "run CONFIG Combined [Wheel 100] (setupInstance CONFIG Combined 0 600 800)" CONFIG "- 30"]
  by (simp add: scenario_defs)

section \<open>Leaving the end of the page\<close>

text \<open>
  Claim C3 says that whenever the page is scrolled to an offset more than the tolerance
  away from the end, \<open>virtualScrollY\<close> is 0 by the next render, and that any amount of
  scrolling away does this. The scroll handler never touches \<open>virtualScrollY\<close>; only
  \<open>getEffectiveScroll\<close>, inside the frame callback, resets it, and it looks at the offset
  the page has then. With \<open>virtualScrollY = 100\<close> at the end of a page of 1000, a scroll to
  500 and back to 1000 before the frame keeps 100 and renders 1100; and a scroll to 997
  followed by its frame keeps 100 as well.
\<close>

theorem scroll_away_and_back_counterexample:
  "(500 :: real) < maxRealScroll (run CONFIG Combined [Scroll 1000, Wheel 100, Frame]
       (setupInstance CONFIG Combined 0 1800 800)) - 5
 \<and> virtualScrollY (run CONFIG Combined [Scroll 1000, Wheel 100, Frame, Scroll 500, Scroll 1000, Frame]
       (setupInstance CONFIG Combined 0 1800 800)) = 100
 \<and> rendered (run CONFIG Combined [Scroll 1000, Wheel 100, Frame, Scroll 500, Scroll 1000, Frame]
       (setupInstance CONFIG Combined 0 1800 800)) = [0, 1100, 1100]
 \<and> virtualScrollY (run CONFIG Combined [Scroll 1000, Wheel 100, Frame, Scroll 997, Frame]
       (setupInstance CONFIG Combined 0 1800 800)) = 100"
  by (simp add: scenario_defs)

text \<open>
  Claim C3, amended. Combined mode, in any state \<open>s\<close> a running instance can reach: after a
  scroll and any further scroll and wheel events before the next frame, the page is at the
  offset of the last scroll, and that frame renders once. If this offset is below
  \<open>maxRealScroll - 5\<close>, the frame resets \<open>virtualScrollY\<close> to 0 and renders the offset;
  otherwise it keeps \<open>virtualScrollY\<close> and renders the offset plus \<open>virtualScrollY\<close>. In the
  first concrete run the page goes from 1000 to 990 and a wheel event retracts the virtual
  offset to 70 before the frame resets it; in the second the page goes to 500 and then to
  997, and the frame keeps 100.
\<close>

theorem frame_resets_offset_when_away_from_end:
  assumes s: "s = run cfg Combined es (setupInstance cfg Combined y0 sh ih)"
    and nf: "Frame \<notin> set es'"
    and s': "s' = run cfg Combined (Scroll y # es') s"
  shows "scrollY s' = last (y # scrollOffsets es')
       \<and> virtualScrollY (step cfg Combined Frame s')
           = (if scrollY s' < maxRealScroll s - 5 then 0 else virtualScrollY s')
       \<and> rendered (step cfg Combined Frame s')
           = rendered s @ [if scrollY s' < maxRealScroll s - 5 then scrollY s'
                            else scrollY s' + virtualScrollY s']"
proof -
  have sch: "scheduled s"
    unfolding s by (rule run_scheduled [OF setupInstance_scheduled])
  have nf': "Frame \<notin> set (Scroll y # es')" using nf by simp
  have "\<exists>e\<in>set (Scroll y # es'). subscribed Combined e"
    by (simp add: subscribed_def)
  with run_scheduled_no_frame [OF nf' sch, of cfg Combined]
  have sch2: "scheduled s'" and t2: "ticking s'" and r2: "rendered s' = rendered s"
    unfolding s' by simp_all
  have y2: "scrollY s' = last (y # scrollOffsets es')"
    unfolding s' by (simp add: run_scrollY)
  have m2: "maxRealScroll s' = maxRealScroll s"
    unfolding s' by (rule run_maxRealScroll)
  have m3: "maxRealScroll (s'\<lparr> rafQueue := 0 \<rparr>) = maxRealScroll s"
    using m2 by (simp add: maxRealScroll_def)
  have "step cfg Combined Frame s' = frameCallback cfg Combined (s'\<lparr> rafQueue := 0 \<rparr>)"
    by (rule step_Frame_pending [OF sch2 t2])
  then show ?thesis
    using r2 y2 m3
    by (auto simp add: frameCallback_virtualScrollY frameCallback_rendered effectivePosition_def
          getEffectiveScroll_def Let_def)
qed

theorem frame_resets_offset_when_away_from_end_witness:
  "\<not> Frame \<in> set [Wheel (- 30)]
 \<and> virtualScrollY (run CONFIG Combined [Scroll 1000, Wheel 100, Frame]
       (setupInstance CONFIG Combined 0 1800 800)) = 100
 \<and> maxRealScroll (run CONFIG Combined [Scroll 1000, Wheel 100, Frame]
       (setupInstance CONFIG Combined 0 1800 800)) = 1000
 \<and> scrollY (run CONFIG Combined [Scroll 990, Wheel (- 30)]
       (run CONFIG Combined [Scroll 1000, Wheel 100, Frame]
          (setupInstance CONFIG Combined 0 1800 800))) = 990
 \<and> virtualScrollY (run CONFIG Combined [Scroll 990, Wheel (- 30)]
       (run CONFIG Combined [Scroll 1000, Wheel 100, Frame]
          (setupInstance CONFIG Combined 0 1800 800))) = 70
 \<and> virtualScrollY (step CONFIG Combined Frame (run CONFIG Combined [Scroll 990, Wheel (- 30)]
       (run CONFIG Combined [Scroll 1000, Wheel 100, Frame]
          (setupInstance CONFIG Combined 0 1800 800)))) = 0
 \<and> rendered (step CONFIG Combined Frame (run CONFIG Combined [Scroll 990, Wheel (- 30)]
       (run CONFIG Combined [Scroll 1000, Wheel 100, Frame]
          (setupInstance CONFIG Combined 0 1800 800)))) = [0, 1100, 990]
 \<and> virtualScrollY (step CONFIG Combined Frame (run CONFIG Combined [Scroll 500, Scroll 997]
       (run CONFIG Combined [Scroll 1000, Wheel 100, Frame]
          (setupInstance CONFIG Combined 0 1800 800)))) = 100
 \<and> rendered (step CONFIG Combined Frame (run CONFIG Combined [Scroll 500, Scroll 997]
       (run CONFIG Combined [Scroll 1000, Wheel 100, Frame]
          (setupInstance CONFIG Combined 0 1800 800)))) = [0, 1100, 1097]"
proof -
  let ?s = "run CONFIG Combined [Scroll 1000, Wheel 100, Frame]
              (setupInstance CONFIG Combined 0 1800 800)"
  have base: "virtualScrollY ?s = 100" "maxRealScroll ?s = 1000" "rendered ?s = [0, 1100]"
    by (simp_all add: scenario_defs)
  have a: "virtualScrollY (run CONFIG Combined [Scroll 990, Wheel (- 30)] ?s) = 70"
    and b: "virtualScrollY (run CONFIG Combined [Scroll 500, Scroll 997] ?s) = 100"
    by (simp_all add: scenario_defs)
  show ?thesis
    using frame_resets_offset_when_away_from_end
        [of ?s CONFIG "[Scroll 1000, Wheel 100, Frame]" 0 1800 800 "[Wheel (- 30)]" _ 990]
      frame_resets_offset_when_away_from_end
        [of ?s CONFIG "[Scroll 1000, Wheel 100, Frame]" 0 1800 800 "[Scroll 997]" _ 500]
      base a b
    by simp
qed

section \<open>Bounds\<close>

text \<open>
  Claim C4. With \<open>maxOffset \<ge> 0\<close> and \<open>sensitivity \<ge> 0\<close> (the source has 2000 and 1),
  \<open>virtualScrollY\<close> lies in \<open>[0, maxOffset]\<close> after every event of every run of every mode
  (\<open>es\<close> is any list of events, so in particular any list of wheel events and each of its
  prefixes); the pure-virtual wheel handler ends within the bounds from any state, every
  branch of the combined wheel handler keeps the bounds, and in the virtual-only mode the
  effective position lies in \<open>[0, maxOffset]\<close>.
\<close>

theorem virtual_offset_within_bounds:
  assumes M: "0 \<le> maxOffset (virtualScroll cfg)" and k: "0 \<le> sensitivity (virtualScroll cfg)"
  shows "inBounds cfg (run cfg m es (setupInstance cfg m y0 sh ih))
       \<and> inBounds cfg (onWheel_virtual cfg deltaY s)
       \<and> (inBounds cfg s \<longrightarrow> inBounds cfg (snd (onWheel_combined cfg deltaY s)))
       \<and> 0 \<le> effectivePosition VirtualOnly (run cfg VirtualOnly es (setupInstance cfg VirtualOnly y0 sh ih))
       \<and> effectivePosition VirtualOnly (run cfg VirtualOnly es (setupInstance cfg VirtualOnly y0 sh ih))
            \<le> maxOffset (virtualScroll cfg)"
proof -
  have a: "inBounds cfg (run cfg m' es (setupInstance cfg m' y0 sh ih))" for m'
    by (rule run_inBounds [OF M k setupInstance_inBounds [OF M]])
  have b: "inBounds cfg (onWheel_virtual cfg deltaY s)"
    by (rule onWheel_virtual_inBounds [OF M])
  have c: "inBounds cfg s \<longrightarrow> inBounds cfg (snd (onWheel_combined cfg deltaY s))"
    by (simp add: onWheel_combined_inBounds [OF M k])
  from a [of VirtualOnly]
  have d: "0 \<le> effectivePosition VirtualOnly (run cfg VirtualOnly es (setupInstance cfg VirtualOnly y0 sh ih))
       \<and> effectivePosition VirtualOnly (run cfg VirtualOnly es (setupInstance cfg VirtualOnly y0 sh ih))
            \<le> maxOffset (virtualScroll cfg)"
    by (simp add: inBounds_def effectivePosition_def)
  from a [of m] b c d show ?thesis by simp
qed

theorem virtual_offset_within_bounds_witness:
  "0 \<le> maxOffset (virtualScroll CONFIG) \<and> 0 \<le> sensitivity (virtualScroll CONFIG)
 \<and> virtualScrollY (run CONFIG Combined [Scroll 1000, Wheel 5000, Wheel (- 300)]
       (setupInstance CONFIG Combined 0 1800 800)) = 1700
 \<and> inBounds CONFIG (run CONFIG Combined [Scroll 1000, Wheel 5000, Wheel (- 300)]
       (setupInstance CONFIG Combined 0 1800 800))
 \<and> inBounds CONFIG (onWheel_virtual CONFIG (- 50) (setupInstance CONFIG VirtualOnly 0 600 800))
 \<and> inBounds CONFIG (setupInstance CONFIG VirtualOnly 0 600 800)
 \<and> inBounds CONFIG (snd (onWheel_combined CONFIG (- 50) (setupInstance CONFIG VirtualOnly 0 600 800)))
 \<and> effectivePosition VirtualOnly (run CONFIG VirtualOnly [Scroll 1000, Wheel 5000, Wheel (- 300)]
       (setupInstance CONFIG VirtualOnly 0 1800 800)) = 1700"
  using virtual_offset_within_bounds
    [of CONFIG Combined "[Scroll 1000, Wheel 5000, Wheel (- 300)]" 0 1800 800 "- 50"
        "setupInstance CONFIG VirtualOnly 0 600 800"]
  by (simp add: scenario_defs inBounds_def)

text \<open>
  Claim C5. With \<open>maxOffset \<ge> 0\<close> and \<open>sensitivity \<ge> 0\<close>, in each of the three modes, when
  the page starts at an offset \<open>\<ge> 0\<close> and every scroll event reports an offset \<open>\<ge> 0\<close>, every
  position handed to \<open>updateStarPositions\<close> (the first render included) is \<open>\<ge> 0\<close>.
\<close>

theorem rendered_positions_nonnegative:
  assumes M: "0 \<le> maxOffset (virtualScroll cfg)" and k: "0 \<le> sensitivity (virtualScroll cfg)"
    and y0: "0 \<le> y0" and es: "\<forall>e\<in>set es. nonnegScroll e"
  shows "\<forall>p\<in>set (rendered (run cfg m es (setupInstance cfg m y0 sh ih))). 0 \<le> p"
proof -
  from es have "list_all nonnegScroll es" by (simp add: list_all_iff)
  with run_safe [OF M k setupInstance_inBounds [OF M] setupInstance_nonnegRendered [OF y0]]
  have "nonnegRendered (run cfg m es (setupInstance cfg m y0 sh ih))" by simp
  then show ?thesis by (simp add: nonnegRendered_def list_all_iff)
qed

theorem rendered_positions_nonnegative_witness:
  "0 \<le> maxOffset (virtualScroll CONFIG) \<and> 0 \<le> sensitivity (virtualScroll CONFIG)
 \<and> list_all nonnegScroll [Scroll 1000, Wheel 100, Frame, Wheel (- 300), Frame, Scroll 0, Frame]
 \<and> rendered (run CONFIG Combined [Scroll 1000, Wheel 100, Frame, Wheel (- 300), Frame, Scroll 0, Frame]
       (setupInstance CONFIG Combined 0 1800 800)) = [0, 1100, 1000, 0]
 \<and> list_all (\<lambda>p. 0 \<le> p) (rendered (run CONFIG Combined
        [Scroll 1000, Wheel 100, Frame, Wheel (- 300), Frame, Scroll 0, Frame]
        (setupInstance CONFIG Combined 0 1800 800)))"
  using rendered_positions_nonnegative
    [of CONFIG 0 "[Scroll 1000, Wheel 100, Frame, Wheel (- 300), Frame, Scroll 0, Frame]"
        Combined 1800 800]
  by (simp add: scenario_defs nonnegScroll_def)

section \<open>Reading the effective position\<close>

text \<open>
  Claim C6 says that \<open>getEffectiveScroll\<close> changes no state. It does: away from the end of
  the page it sets \<open>virtualScrollY\<close> to 0. After scrolling to the end (1000), one wheel event
  of 100 and a scroll back to 0, \<open>virtualScrollY\<close> is 100 before the call and 0 after it.
\<close>

theorem getEffectiveScroll_resets_counterexample:
  "virtualScrollY (run CONFIG Combined [Scroll 1000, Wheel 100, Scroll 0]
       (setupInstance CONFIG Combined 0 1800 800)) = 100
 \<and> virtualScrollY (snd (getEffectiveScroll (run CONFIG Combined [Scroll 1000, Wheel 100, Scroll 0]
       (setupInstance CONFIG Combined 0 1800 800)))) = 0"
  by (simp add: scenario_defs)

text \<open>
  Claim C6, amended. \<open>getEffectiveScroll\<close> changes nothing but \<open>virtualScrollY\<close>, which it
  keeps when \<open>scrollY \<ge> maxRealScroll - 5\<close> (there the call is a pure read) and sets to 0
  otherwise; the position it returns depends only on \<open>scrollY\<close>, \<open>maxRealScroll\<close> and
  \<open>virtualScrollY\<close>; and a second call returns the same position and changes nothing more.
\<close>

theorem getEffectiveScroll_touches_only_virtualScrollY:
  "snd (getEffectiveScroll s) =
     s\<lparr> virtualScrollY := (if scrollY s \<ge> maxRealScroll s - 5 then virtualScrollY s else 0) \<rparr>
 \<and> (scrollY s \<ge> maxRealScroll s - 5 \<longrightarrow> snd (getEffectiveScroll s) = s)
 \<and> (scrollY t = scrollY s \<and> maxRealScroll t = maxRealScroll s
        \<and> virtualScrollY t = virtualScrollY s
      \<longrightarrow> fst (getEffectiveScroll t) = fst (getEffectiveScroll s))
 \<and> getEffectiveScroll (snd (getEffectiveScroll s))
      = (fst (getEffectiveScroll s), snd (getEffectiveScroll s))"
  by (simp add: getEffectiveScroll_def maxRealScroll_def Let_def)

theorem getEffectiveScroll_touches_only_virtualScrollY_witness:
  "scrollY (run CONFIG Combined [Scroll 1000, Wheel 100]
       (setupInstance CONFIG Combined 0 1800 800))
     \<ge> maxRealScroll (run CONFIG Combined [Scroll 1000, Wheel 100]
       (setupInstance CONFIG Combined 0 1800 800)) - 5
 \<and> getEffectiveScroll (run CONFIG Combined [Scroll 1000, Wheel 100]
       (setupInstance CONFIG Combined 0 1800 800))
     = (1100, run CONFIG Combined [Scroll 1000, Wheel 100]
                (setupInstance CONFIG Combined 0 1800 800))
 \<and> fst (getEffectiveScroll ((run CONFIG Combined [Scroll 1000, Wheel 100]
       (setupInstance CONFIG Combined 0 1800 800)) \<lparr> ticking := False, rendered := [] \<rparr>)) = 1100"
proof -
  let ?s = "run CONFIG Combined [Scroll 1000, Wheel 100] (setupInstance CONFIG Combined 0 1800 800)"
  let ?t = "?s\<lparr> ticking := False, rendered := [] \<rparr>"
  have a: "scrollY ?s = 1000" "maxRealScroll ?s = 1000" "virtualScrollY ?s = 100"
    by (simp_all add: scenario_defs)
  have b: "fst (getEffectiveScroll ?s) = 1100"
    using a by (simp add: getEffectiveScroll_def Let_def)
  have c: "scrollY ?t = scrollY ?s" "maxRealScroll ?t = maxRealScroll ?s"
    "virtualScrollY ?t = virtualScrollY ?s"
    by (simp_all add: maxRealScroll_def)
  show ?thesis
    using getEffectiveScroll_touches_only_virtualScrollY [of ?s ?t] a b c
    by (simp add: prod_eq_iff)
qed

section \<open>One render per animation frame\<close>

text \<open>
  Claim C7 says that every batch of scroll and wheel events between two frames is followed
  by exactly one render. \<open>setupRealScrollParallax\<close> installs a scroll listener only, so in
  that mode a batch of wheel events schedules nothing: the frame after two wheel events
  renders nothing, and the trace still holds the first render alone.
\<close>

theorem wheel_only_batch_counterexample:
  "rafQueue (setupInstance CONFIG RealOnly 0 1800 800) = 0
 \<and> \<not> ticking (setupInstance CONFIG RealOnly 0 1800 800)
 \<and> rendered (setupInstance CONFIG RealOnly 0 1800 800) = [0]
 \<and> rendered (step CONFIG RealOnly Frame (run CONFIG RealOnly [Wheel 100, Wheel 50]
       (setupInstance CONFIG RealOnly 0 1800 800))) = [0]"
  by (simp add: scenario_defs)

text \<open>
  Claim C7, amended. Start with no frame callback pending (\<open>rafQueue = 0\<close>, \<open>ticking\<close>
  false: the state after set-up and after every frame), and let \<open>es\<close> be scroll and wheel
  events. Nothing is rendered while \<open>es\<close> is handled, and the page is then at the offset of
  the last scroll event. If the mode listens to at least one event of \<open>es\<close> (scroll in the
  real mode, wheel in the virtual mode, both in the combined mode), the next frame calls
  \<open>updateStarPositions\<close> exactly once, with the position of the state the last event left:
  \<open>scrollY\<close> in the real mode, \<open>virtualScrollY\<close> in the virtual mode, and in the combined
  mode \<open>scrollY + virtualScrollY\<close> at the end of the page and \<open>scrollY\<close> elsewhere.
  If the mode listens to none, the frame renders nothing. Afterwards no callback is pending.
  The concrete runs are ten scroll events in the real mode (one render, of the last offset
  100), six scroll and wheel events in the combined mode (one render, of 1120), and two wheel
  events in the real mode (no render).
\<close>

theorem one_render_per_listened_batch:
  assumes q: "rafQueue s = 0" and t: "\<not> ticking s" and nf: "Frame \<notin> set es"
    and s': "s' = run cfg m es s"
  shows "rendered s' = rendered s
       \<and> scrollY s' = last (scrollY s # scrollOffsets es)
       \<and> rendered (step cfg m Frame s')
           = (if \<exists>e\<in>set es. subscribed m e
              then rendered s @
                   [case m of
                      RealOnly \<Rightarrow> scrollY s'
                    | VirtualOnly \<Rightarrow> virtualScrollY s'
                    | Combined \<Rightarrow>
                        (if scrollY s' \<ge> maxRealScroll s' - 5
                         then scrollY s' + virtualScrollY s' else scrollY s')]
              else rendered s)
       \<and> rafQueue (step cfg m Frame s') = 0
       \<and> \<not> ticking (step cfg m Frame s')"
proof -
  have "scheduled s" using q t by (simp add: scheduled_def)
  from run_scheduled_no_frame [OF nf this, of cfg m] t
  have sch: "scheduled s'"
    and tick: "ticking s' \<longleftrightarrow> (\<exists>e\<in>set es. subscribed m e)"
    and r: "rendered s' = rendered s"
    unfolding s' by simp_all
  have y: "scrollY s' = last (scrollY s # scrollOffsets es)"
    unfolding s' by (rule run_scrollY)
  have pos: "effectivePosition m s' =
      (case m of
         RealOnly \<Rightarrow> scrollY s'
       | VirtualOnly \<Rightarrow> virtualScrollY s'
       | Combined \<Rightarrow>
           (if scrollY s' \<ge> maxRealScroll s' - 5
            then scrollY s' + virtualScrollY s' else scrollY s'))"
    by (cases m) (simp_all add: effectivePosition_def getEffectiveScroll_def Let_def)
  show ?thesis
  proof (cases "\<exists>e\<in>set es. subscribed m e")
    case True
    with tick have "ticking s'" by simp
    from step_Frame_pending [OF sch this, of cfg m] True r y pos show ?thesis
      by (simp add: frameCallback_rendered frameCallback_fields effectivePosition_rafQueue)
  next
    case False
    with tick have nt: "\<not> ticking s'" by simp
    from sch nt have "rafQueue s' = 0" by (simp add: scheduled_def)
    with step_Frame_idle [OF sch nt, of cfg m] False r y nt show ?thesis
      by simp
  qed
qed

theorem one_render_per_listened_batch_witness:
  "rafQueue (setupInstance CONFIG RealOnly 0 1800 800) = 0
 \<and> \<not> ticking (setupInstance CONFIG RealOnly 0 1800 800)
 \<and> Frame \<notin> set [Scroll 10, Scroll 20, Scroll 30, Scroll 40, Scroll 50,
                    Scroll 60, Scroll 70, Scroll 80, Scroll 90, Scroll 100]
 \<and> rendered (step CONFIG RealOnly Frame (run CONFIG RealOnly
       [Scroll 10, Scroll 20, Scroll 30, Scroll 40, Scroll 50,
        Scroll 60, Scroll 70, Scroll 80, Scroll 90, Scroll 100]
       (setupInstance CONFIG RealOnly 0 1800 800))) = [0, 100]
 \<and> rafQueue (setupInstance CONFIG Combined 0 1800 800) = 0
 \<and> \<not> ticking (setupInstance CONFIG Combined 0 1800 800)
 \<and> Frame \<notin> set [Scroll 400, Wheel 100, Scroll 1000, Wheel 100, Wheel 50, Wheel (- 30)]
 \<and> rendered (step CONFIG Combined Frame (run CONFIG Combined
       [Scroll 400, Wheel 100, Scroll 1000, Wheel 100, Wheel 50, Wheel (- 30)]
       (setupInstance CONFIG Combined 0 1800 800))) = [0, 1120]
 \<and> rendered (step CONFIG RealOnly Frame (run CONFIG RealOnly [Wheel 100, Wheel 50]
       (setupInstance CONFIG RealOnly 0 1800 800))) = [0]"
proof -
  let ?es1 = "[Scroll 10, Scroll 20, Scroll 30, Scroll 40, Scroll 50,
               Scroll 60, Scroll 70, Scroll 80, Scroll 90, Scroll 100]"
  let ?es2 = "[Scroll 400, Wheel 100, Scroll 1000, Wheel 100, Wheel 50, Wheel (- 30)]"
  let ?es3 = "[Wheel 100, Wheel 50]"
  have v2: "virtualScrollY (run CONFIG Combined ?es2 (setupInstance CONFIG Combined 0 1800 800)) = 120"
    by (simp add: scenario_defs)
  have m2: "maxRealScroll (run CONFIG Combined ?es2 (setupInstance CONFIG Combined 0 1800 800)) = 1000"
    unfolding run_maxRealScroll by (simp add: maxRealScroll_def setupInstance_fields)
  show ?thesis
    using one_render_per_listened_batch
        [of "setupInstance CONFIG RealOnly 0 1800 800" ?es1 _ CONFIG RealOnly]
      one_render_per_listened_batch
        [of "setupInstance CONFIG Combined 0 1800 800" ?es2 _ CONFIG Combined]
      one_render_per_listened_batch
        [of "setupInstance CONFIG RealOnly 0 1800 800" ?es3 _ CONFIG RealOnly]
      v2 m2
    by (simp add: setupInstance_fields subscribed_def)
qed

section \<open>The renderer\<close>

text \<open>
  Claim C8. For coefficients \<open>layer1 > layer2 > layer3 > layer4 > layer5 > 0\<close> and a position
  \<open>p > 0\<close>, a render on a page with all five layers sets layer \<open>i\<close> to \<open>- p\<close> times its coefficient, and the
  absolute values of these offsets strictly decrease from layer 1 to layer 5. The concrete
  render is of position 100 under the source's coefficients.
\<close>

theorem nearer_layers_move_farther:
  assumes c: "layer1 (parallax cfg) > layer2 (parallax cfg)"
             "layer2 (parallax cfg) > layer3 (parallax cfg)"
             "layer3 (parallax cfg) > layer4 (parallax cfg)"
             "layer4 (parallax cfg) > layer5 (parallax cfg)"
             "layer5 (parallax cfg) > 0"
    and p: "p > 0"
    and present: "\<forall>i\<in>{1..5}. layers s i \<noteq> None"
  shows "\<exists>t1 t2 t3 t4 t5.
           map (translateY (layers (updateStarPositions cfg p s))) [1, 2, 3, 4, 5]
             = [Some t1, Some t2, Some t3, Some t4, Some t5]
         \<and> t1 = - p * layer1 (parallax cfg) \<and> t2 = - p * layer2 (parallax cfg)
         \<and> t3 = - p * layer3 (parallax cfg) \<and> t4 = - p * layer4 (parallax cfg)
         \<and> t5 = - p * layer5 (parallax cfg)
         \<and> \<bar>t1\<bar> > \<bar>t2\<bar> \<and> \<bar>t2\<bar> > \<bar>t3\<bar> \<and> \<bar>t3\<bar> > \<bar>t4\<bar> \<and> \<bar>t4\<bar> > \<bar>t5\<bar>"
proof -
  have t: "translateY (layers (updateStarPositions cfg p s)) i = Some (- p * parallaxAt cfg i)"
    if "1 \<le> i" "i \<le> 5" for i
    using that present by (intro translateY_updateStarPositions) simp_all
  have pos: "0 < layer4 (parallax cfg)" "0 < layer3 (parallax cfg)"
            "0 < layer2 (parallax cfg)" "0 < layer1 (parallax cfg)"
    using c by simp_all
  have abs: "\<bar>p * a\<bar> > \<bar>p * b\<bar>" if "a > b" "b > 0" for a b :: real
    using that p by (simp add: abs_mult)
  show ?thesis
    using abs [OF c(1) pos(3)] abs [OF c(2) pos(2)] abs [OF c(3) pos(1)] abs [OF c(4) c(5)]
    by (simp add: t parallaxAt_def)
qed

theorem nearer_layers_move_farther_witness:
  "layer1 (parallax CONFIG) > layer2 (parallax CONFIG)
 \<and> layer2 (parallax CONFIG) > layer3 (parallax CONFIG)
 \<and> layer3 (parallax CONFIG) > layer4 (parallax CONFIG)
 \<and> layer4 (parallax CONFIG) > layer5 (parallax CONFIG)
 \<and> layer5 (parallax CONFIG) > 0
 \<and> list_all (\<lambda>i. layers (setupInstance CONFIG Combined 0 1800 800) i \<noteq> None) [1, 2, 3, 4, 5]
 \<and> map (translateY (layers (updateStarPositions CONFIG 100
            (setupInstance CONFIG Combined 0 1800 800)))) [1, 2, 3, 4, 5]
      = [Some (- 100), Some (- 70), Some (- 45), Some (- 25), Some (- 10)]"
proof -
  have present: "\<forall>i\<in>{1..5}. layers (setupInstance CONFIG Combined 0 1800 800) i \<noteq> None"
    by (simp add: setupInstance_def updateStarPositions_layers createStarBackground_apply)
  have cfg: "layer1 (parallax CONFIG) = 1" "layer2 (parallax CONFIG) = 7 / 10"
    "layer3 (parallax CONFIG) = 45 / 100" "layer4 (parallax CONFIG) = 25 / 100"
    "layer5 (parallax CONFIG) = 1 / 10"
    by (simp_all add: CONFIG_def)
  show ?thesis
    using nearer_layers_move_farther
      [of CONFIG 100 "setupInstance CONFIG Combined 0 1800 800", OF _ _ _ _ _ _ present] present
    by (simp add: cfg)
qed

text \<open>
  Claim C9. Whatever the position and whichever layers are missing, a render leaves each
  missing layer missing, sets each present layer \<open>i\<close> of 1 to 5 to \<open>- p * parallaxAt cfg i\<close>,
  touches no other element, and completes (the call is recorded in the trace). In the
  concrete page layers 2 and 4 are missing.
\<close>

theorem missing_layers_are_skipped:
  "(\<forall>i\<in>{1..5}. layers (updateStarPositions cfg p s) i =
       (case layers s i of
          None \<Rightarrow> None
        | Some layer \<Rightarrow> Some (layer\<lparr> transform := Some (- p * parallaxAt cfg i) \<rparr>)))
 \<and> (\<forall>i. i \<notin> {1..5} \<longrightarrow> layers (updateStarPositions cfg p s) i = layers s i)
 \<and> rendered (updateStarPositions cfg p s) = rendered s @ [p]"
  by (simp add: updateStarPositions_layers updateStarPositions_fields split: option.split)

theorem missing_layers_are_skipped_witness:
  "map (layers ((setupInstance CONFIG Combined 0 1800 800)
          \<lparr> layers := createStarBackground (2 := None, 4 := None) \<rparr>)) [1, 2, 3, 4, 5]
     = [Some \<lparr> transform = None \<rparr>, None, Some \<lparr> transform = None \<rparr>, None,
        Some \<lparr> transform = None \<rparr>]
 \<and> map (layers (updateStarPositions CONFIG 100
          ((setupInstance CONFIG Combined 0 1800 800)
             \<lparr> layers := createStarBackground (2 := None, 4 := None) \<rparr>))) [1, 2, 3, 4, 5]
     = [Some \<lparr> transform = Some (- 100) \<rparr>, None, Some \<lparr> transform = Some (- 45) \<rparr>, None,
        Some \<lparr> transform = Some (- 10) \<rparr>]"
proof -
  let ?s = "(setupInstance CONFIG Combined 0 1800 800)
              \<lparr> layers := createStarBackground (2 := None, 4 := None) \<rparr>"
  have at: "layers (updateStarPositions CONFIG 100 ?s) i =
       (case layers ?s i of
          None \<Rightarrow> None
        | Some layer \<Rightarrow> Some (layer\<lparr> transform := Some (- 100 * parallaxAt CONFIG i) \<rparr>))"
    if "i \<in> {1..5}" for i
    using missing_layers_are_skipped [of CONFIG 100 ?s] that by blast
  show ?thesis
    using at [of 1] at [of 2] at [of 3] at [of 4] at [of 5]
    by (simp add: createStarBackground_apply parallaxAt_def CONFIG_def)
qed

end
